theory Spec2Isabelle
  imports Main "HOL-Library.Word" "HOL-Library.AList"
begin

section \<open>Values, exceptions and the external collaborators\<close>

text \<open>
  The facade of \<^verbatim>\<open>web3/main.py\<close> works on dynamically typed Python values. Only the
  shapes the facade itself inspects are told apart: \<open>None\<close>, booleans, integers (unbounded),
  byte strings, text, lists, dictionaries, the \<^verbatim>\<open>empty\<close> sentinel of
  \<^verbatim>\<open>web3._utils.empty\<close>, and opaque objects (a provider, a middleware, a resolver).
  A Python \<open>str\<close> is represented by the bytes of its UTF-8 form, one \<open>char\<close> per byte.
\<close>

type_synonym byte = "8 word"

datatype py_val =
    PNone
  | PBool bool
  | PInt int
  | PBytes "byte list"
  | PStr string
  | PList "py_val list"
  | PDict "(string \<times> py_val) list"
  | PEmpty
  | PObject string

text \<open>
  Exceptions are values. A message built with \<^verbatim>\<open>%r\<close> keeps its template and the values
  formatted into it, in order; a message built from text and decimal numbers is the
  finished string.
\<close>

datatype error =
    ValueError string
  | TypeError string "py_val list"
  | AttributeError string

fun opt_str :: "string option \<Rightarrow> py_val" where
  "opt_str None = PNone"
| "opt_str (Some s) = PStr s"

subsection \<open>Decimal rendering of a length (\<^verbatim>\<open>str.format\<close> on an int)\<close>

definition digit_char :: "nat \<Rightarrow> char" where
  "digit_char d = char_of (48 + d)"

function str_nat :: "nat \<Rightarrow> string" where
  "str_nat n = (if n < 10 then [digit_char n] else str_nat (n div 10) @ [digit_char (n mod 10)])"
  by pat_completeness auto
termination
  by (relation "measure id") auto

declare str_nat.simps [simp del]

subsection \<open>Hexadecimal text\<close>

text \<open>
  Two digits per byte, the high half first; lower-case digits are written, digits of both
  cases are read. Text of odd length or with another character spells no byte string.
\<close>

definition hex_digit :: "nat \<Rightarrow> char" where
  "hex_digit d = (if d < 10 then char_of (48 + d) else char_of (87 + d))"

definition hex_val :: "char \<Rightarrow> nat option" where
  "hex_val c =
     (let k = (of_char c :: nat) in
      if 48 \<le> k \<and> k \<le> 57 then Some (k - 48)
      else if 97 \<le> k \<and> k \<le> 102 then Some (k - 87)
      else if 65 \<le> k \<and> k \<le> 70 then Some (k - 55)
      else None)"

definition byte_hex :: "byte \<Rightarrow> string" where
  "byte_hex b = [hex_digit (unat b div 16), hex_digit (unat b mod 16)]"

definition encode_hex :: "byte list \<Rightarrow> string" where
  "encode_hex bs = concat (map byte_hex bs)"

fun decode_pairs :: "string \<Rightarrow> byte list option" where
  "decode_pairs [] = Some []"
| "decode_pairs [c] = None"
| "decode_pairs (c # d # rest) =
     (case (hex_val c, hex_val d) of
        (Some hi, Some lo) \<Rightarrow>
          (case decode_pairs rest of
             None \<Rightarrow> None
           | Some bs \<Rightarrow> Some (of_nat (16 * hi + lo) # bs))
      | _ \<Rightarrow> None)"

text \<open>
  Modelled from the spec: \<^verbatim>\<open>eth_utils.add_0x_prefix\<close> and
  \<^verbatim>\<open>eth_utils.remove_0x_prefix\<close> are not part of \<^verbatim>\<open>web3/main.py\<close>. Step 4 of the
  packed-ABI hasher joins the
  per-pair encodings into one buffer; the two helpers take the \<^verbatim>\<open>0x\<close> marker off each
  piece and put one marker in front of the joined text.
\<close>

definition is_0x_prefixed :: "string \<Rightarrow> bool" where
  "is_0x_prefixed s = (take 2 s = ''0x'' \<or> take 2 s = ''0X'')"

definition remove_0x_prefix :: "string \<Rightarrow> string" where
  "remove_0x_prefix s = (if is_0x_prefixed s then drop 2 s else s)"

definition add_0x_prefix :: "string \<Rightarrow> string" where
  "add_0x_prefix s = (if is_0x_prefixed s then s else ''0x'' @ s)"

subsection \<open>Big-endian byte strings\<close>

text \<open>
  \<open>be_bytes k v\<close> is the integer \<open>v\<close> on \<open>k\<close> bytes, most significant first (two's
  complement for a negative \<open>v\<close>); \<open>be_value\<close> reads a byte string as an unsigned
  number; \<open>byte_width v\<close> is the least number of bytes, at least one, that hold \<open>v \<ge> 0\<close>.
\<close>

fun be_bytes :: "nat \<Rightarrow> int \<Rightarrow> byte list" where
  "be_bytes 0 v = []"
| "be_bytes (Suc k) v = be_bytes k (v div 256) @ [of_int v]"

definition be_value :: "byte list \<Rightarrow> int" where
  "be_value bs = foldl (\<lambda>acc b. acc * 256 + uint b) 0 bs"

function byte_width :: "int \<Rightarrow> nat" where
  "byte_width v = (if v < 256 then 1 else Suc (byte_width (v div 256)))"
  by pat_completeness auto
termination
  by (relation "measure nat") auto

declare byte_width.simps [simp del]

subsection \<open>The collaborators taken as parameters\<close>

text \<open>
  \<^verbatim>\<open>eth_utils.keccak\<close> is a library function outside the repository: it is a parameter,
  and its contract (a 256-bit digest for every byte string) is its type. Name
  resolution, the encodings of ABI types the hasher's description does not pin down, the
  request manager's constructor (the class attribute \<^verbatim>\<open>Web3.RequestManager\<close>) and, for
  each module class, the attribute names a fresh instance of it has (\<open>instance_names\<close>;
  the module classes are defined outside \<^verbatim>\<open>web3/main.py\<close>) are parameters as well.
\<close>

text \<open>
  Modelled from the spec: \<^verbatim>\<open>RequestManager\<close> (\<^verbatim>\<open>web3/manager.py\<close>) is not part of
  \<^verbatim>\<open>web3/main.py\<close>. "\<open>RequestCoordinator\<close>: exposes \<open>transport\<close> (read/write) and
  \<open>interceptor_chain\<close> (read-only ordered list)": a record of the two, whose field
  \<open>provider\<close> is written by assignment.
\<close>

record request_manager =
  provider :: py_val
  middleware_onion :: "py_val list"

text \<open>
  An object attached to the facade: the name of its class and its own attributes (its
  sub-namespaces).
\<close>

datatype pyobj = Obj (obj_class: string) (obj_fields: "(string \<times> pyobj) list")

text \<open>
  A constructed \<^verbatim>\<open>Web3\<close> object has one attribute namespace. Its instance attributes are
  \<^verbatim>\<open>manager\<close> (bound on line 130), \<^verbatim>\<open>_ens\<close> (bound on line 141) and every name an
  \<^verbatim>\<open>attach\<close> call has bound. The first two are the fields \<open>manager\<close> and \<open>private_ens\<close>;
  the dictionary \<open>attrs\<close> holds the others, so on a constructed object it has no entry
  for \<^verbatim>\<open>manager\<close> or \<^verbatim>\<open>_ens\<close>. The names of the class (its properties, methods and
  class attributes) belong to the same namespace; \<open>hasattr_Web3\<close> below accounts for them.
\<close>

record facade =
  manager :: request_manager
  attrs :: "(string \<times> pyobj) list"
  private_ens :: py_val

text \<open>
  Modelled from the spec: \<^verbatim>\<open>ENS.fromWeb3\<close> (package \<^verbatim>\<open>ens\<close>) is not part of
  \<^verbatim>\<open>web3/main.py\<close>. It gives "a lazily-constructed resolver bound to the facade":
  \<open>FromWeb3 w\<close> is the resolver built from the facade \<open>w\<close>; \<open>Stored v\<close> is a value assigned
  to the property and handed back as it is.
\<close>

datatype resolver = FromWeb3 facade | Stored py_val

record env =
  eth_utils_keccak :: "byte list \<Rightarrow> 256 word"
  RequestManager :: "py_val \<Rightarrow> py_val list option \<Rightarrow> request_manager"
  is_ens_name :: "string \<Rightarrow> bool"
  resolve :: "resolver \<Rightarrow> string \<Rightarrow> error + py_val"
  hex_encode_other :: "string \<Rightarrow> py_val \<Rightarrow> error + string"
  instance_names :: "string \<Rightarrow> string list"

section \<open>Hash inputs: \<^verbatim>\<open>to_bytes\<close> and \<^verbatim>\<open>Web3.keccak\<close>\<close>

text \<open>
  Modelled from the spec: \<^verbatim>\<open>to_bytes\<close> of \<^verbatim>\<open>web3._utils.encoding\<close> is not part of
  \<^verbatim>\<open>web3/main.py\<close>. It "accepts exactly one of three mutually exclusive input
  representations, converts to a canonical byte buffer"; "supplying zero or more than one
  representation, or an unsupported input shape (anything other than raw bytes, an integer,
  or no input combined with text/hex), fails with a descriptive \<open>InvalidInputError\<close> naming
  which combination was received". Text becomes its UTF-8 bytes, hexadecimal text the bytes
  it spells, and an integer its big-endian bytes (the message of \<^verbatim>\<open>Web3.keccak\<close> lists
  \<^verbatim>\<open>keccak(0x747874)\<close> beside \<^verbatim>\<open>keccak(b'\x74\x78\x74')\<close>); a Python \<open>bool\<close> is an
  integer, 0 or 1. Hexadecimal text that does not spell whole bytes and a negative integer
  have no byte buffer and are rejected.
\<close>

definition utf8 :: "string \<Rightarrow> byte list" where
  "utf8 s = map of_char s"

definition num_given :: "py_val \<Rightarrow> string option \<Rightarrow> string option \<Rightarrow> nat" where
  "num_given primitive hexstr text =
     (case primitive of PNone \<Rightarrow> 0 | _ \<Rightarrow> 1)
     + (case hexstr of None \<Rightarrow> 0 | Some _ \<Rightarrow> 1)
     + (case text of None \<Rightarrow> 0 | Some _ \<Rightarrow> 1)"

definition to_bytes_message :: string where
  "to_bytes_message =
     ''Exactly one of primitive, hexstr and text must be given. Received: %r, hexstr=%r, text=%r''"

definition to_bytes :: "py_val \<Rightarrow> string option \<Rightarrow> string option \<Rightarrow> error + byte list" where
  "to_bytes primitive hexstr text =
     (if num_given primitive hexstr text \<noteq> 1
      then Inl (TypeError to_bytes_message [primitive, opt_str hexstr, opt_str text])
      else
        (case primitive of
           PBool b \<Rightarrow> Inr [if b then 1 else 0]
         | PBytes bs \<Rightarrow> Inr bs
         | PInt i \<Rightarrow>
             (if i < 0 then Inl (ValueError ''Cannot convert a negative integer to bytes'')
              else Inr (be_bytes (byte_width i) i))
         | PNone \<Rightarrow>
             (case hexstr of
                Some h \<Rightarrow>
                  (case decode_pairs (remove_0x_prefix h) of
                     None \<Rightarrow> Inl (ValueError ''Non-hexadecimal input'')
                   | Some bs \<Rightarrow> Inr bs)
              | None \<Rightarrow>
                  (case text of
                     Some t \<Rightarrow> Inr (utf8 t)
                   | None \<Rightarrow>
                       Inl (TypeError to_bytes_message [primitive, opt_str hexstr, opt_str text])))
         | _ \<Rightarrow> Inl (TypeError to_bytes_message [primitive, opt_str hexstr, opt_str text])))"

text \<open>
  \<^verbatim>\<open>HexBytes\<close> wraps the 32 bytes of the digest, most significant byte first.
\<close>

datatype hexbytes = HexBytes (raw: "byte list")

definition digest_bytes :: "256 word \<Rightarrow> byte list" where
  "digest_bytes d = map (\<lambda>i. ucast (drop_bit (8 * (31 - i)) d)) [0..<32]"

definition keccak_message :: string where
  "keccak_message =
     ''You called keccak with first arg %r and keywords %r. You must call it with one of '' @
     ''these approaches: keccak(text='' @ [CHR 0x27] @ ''txt'' @ [CHR 0x27] @
     ''), keccak(hexstr='' @ [CHR 0x27] @ ''0x747874'' @ [CHR 0x27] @ ''), '' @
     ''keccak(b'' @ [CHR 0x27, CHR 0x5C] @ ''x74'' @ [CHR 0x5C] @ ''x78'' @ [CHR 0x5C] @
     ''x74'' @ [CHR 0x27] @ ''), or keccak(0x747874).''"

text \<open>\<^verbatim>\<open>isinstance(primitive, (bytes, int, type(None)))\<close>; \<open>bool\<close> is a subclass of \<open>int\<close>.\<close>

fun is_bytes_int_or_none :: "py_val \<Rightarrow> bool" where
  "is_bytes_int_or_none (PBytes _) = True"
| "is_bytes_int_or_none (PInt _) = True"
| "is_bytes_int_or_none (PBool _) = True"
| "is_bytes_int_or_none PNone = True"
| "is_bytes_int_or_none _ = False"

definition keccak :: "env \<Rightarrow> py_val \<Rightarrow> string option \<Rightarrow> string option \<Rightarrow> error + hexbytes" where
  "keccak e primitive text hexstr =
     (if is_bytes_int_or_none primitive then
        (case to_bytes primitive hexstr text of
           Inl err \<Rightarrow> Inl err
         | Inr input_bytes \<Rightarrow> Inr (HexBytes (digest_bytes (eth_utils_keccak e input_bytes))))
      else
        Inl (TypeError keccak_message
               [primitive, PDict [(''text'', opt_str text), (''hexstr'', opt_str hexstr)]]))"

section \<open>The packed-ABI hasher: \<^verbatim>\<open>Web3.solidityKeccak\<close>\<close>

text \<open>
  Modelled from the spec: \<^verbatim>\<open>hex_encode_abi_type\<close> of \<^verbatim>\<open>web3._utils.encoding\<close> is not part
  of \<^verbatim>\<open>web3/main.py\<close>. Step 3 of the hasher: "encode the value as the non-padded (packed)
  representation: fixed-width integers encoded to their exact declared bit width (no 32-byte
  padding), \<open>bool\<close> as a single byte (0/1), dynamic types (\<open>bytes\<close>, \<open>string\<close>, arrays)
  encoded with no length prefix". The result is hexadecimal text with the \<^verbatim>\<open>0x\<close> marker.
  Arrays, addresses and every pair of type and value not described there (a value out of
  the type's range among them) are left to the parameter \<open>hex_encode_other\<close>.
\<close>

datatype abi_type = AbiBool | AbiUInt nat | AbiSInt nat | AbiBytes | AbiString | AbiOther

definition is_digit :: "char \<Rightarrow> bool" where
  "is_digit c = (48 \<le> (of_char c :: nat) \<and> (of_char c :: nat) \<le> 57)"

fun digits_val :: "string \<Rightarrow> nat \<Rightarrow> nat option" where
  "digits_val [] acc = Some acc"
| "digits_val (c # cs) acc =
     (if is_digit c then digits_val cs (10 * acc + (of_char c - 48)) else None)"

definition parse_size :: "string \<Rightarrow> nat option" where
  "parse_size s =
     (case s of
        [] \<Rightarrow> None
      | c # _ \<Rightarrow> if c = CHR ''0'' then None else digits_val s 0)"

definition valid_width :: "nat \<Rightarrow> bool" where
  "valid_width n = (n mod 8 = 0 \<and> 8 \<le> n \<and> n \<le> 256)"

definition sized :: "(nat \<Rightarrow> abi_type) \<Rightarrow> string \<Rightarrow> abi_type" where
  "sized mk digits =
     (case parse_size digits of
        None \<Rightarrow> AbiOther
      | Some n \<Rightarrow> if valid_width n then mk n else AbiOther)"

definition parse_abi_type :: "string \<Rightarrow> abi_type" where
  "parse_abi_type t =
     (if t = ''bool'' then AbiBool
      else if t = ''bytes'' then AbiBytes
      else if t = ''string'' then AbiString
      else if take 4 t = ''uint'' then sized AbiUInt (drop 4 t)
      else if take 3 t = ''int'' then sized AbiSInt (drop 3 t)
      else AbiOther)"

fun encode_parsed :: "env \<Rightarrow> string \<Rightarrow> abi_type \<Rightarrow> py_val \<Rightarrow> error + string" where
  "encode_parsed e t AbiBool (PBool b) = Inr (''0x'' @ encode_hex [if b then 1 else 0])"
| "encode_parsed e t (AbiUInt n) (PInt v) =
     (if 0 \<le> v \<and> v < 2 ^ n then Inr (''0x'' @ encode_hex (be_bytes (n div 8) v))
      else hex_encode_other e t (PInt v))"
| "encode_parsed e t (AbiSInt n) (PInt v) =
     (if - (2 ^ (n - 1)) \<le> v \<and> v < 2 ^ (n - 1)
      then Inr (''0x'' @ encode_hex (be_bytes (n div 8) v))
      else hex_encode_other e t (PInt v))"
| "encode_parsed e t AbiBytes (PBytes bs) = Inr (''0x'' @ encode_hex bs)"
| "encode_parsed e t AbiString (PStr s) = Inr (''0x'' @ encode_hex (utf8 s))"
| "encode_parsed e t _ v = hex_encode_other e t v"

definition hex_encode_abi_type :: "env \<Rightarrow> string \<Rightarrow> py_val \<Rightarrow> error + string" where
  "hex_encode_abi_type e t v = encode_parsed e t (parse_abi_type t) v"

text \<open>The \<^verbatim>\<open>ens\<close> property: the sentinel means "not set, build the default on every read".\<close>

definition Web3_ens :: "facade \<Rightarrow> resolver" where
  "Web3_ens self = (if private_ens self = PEmpty then FromWeb3 self else Stored (private_ens self))"

definition Web3_ens_set :: "facade \<Rightarrow> py_val \<Rightarrow> facade" where
  "Web3_ens_set self new_ens = self\<lparr>private_ens := new_ens\<rparr>"

text \<open>
  Modelled from the spec: \<^verbatim>\<open>abi_ens_resolver\<close> of \<^verbatim>\<open>web3._utils.normalizers\<close> and
  \<^verbatim>\<open>map_abi_data\<close> of \<^verbatim>\<open>web3._utils.abi\<close> are not part of \<^verbatim>\<open>web3/main.py\<close>. Step 2 of
  the hasher: "any value that is a human-readable name needing resolution to an address is
  substituted in place; all other values pass through unchanged. Resolution failure
  propagates"; "when bound, the resolver defaults to the client's configured resolver,
  otherwise no resolution is attempted and name-like values are treated as literal strings".
\<close>

definition abi_ens_resolver :: "env \<Rightarrow> facade option \<Rightarrow> string \<Rightarrow> py_val \<Rightarrow> error + py_val" where
  "abi_ens_resolver e w3 abi_type val =
     (case (w3, val) of
        (Some w, PStr s) \<Rightarrow>
          (if abi_type = ''address'' \<and> is_ens_name e s then resolve e (Web3_ens w) s
           else Inr val)
      | _ \<Rightarrow> Inr val)"

fun apply_normalizers ::
  "(string \<Rightarrow> py_val \<Rightarrow> error + py_val) list \<Rightarrow> string \<Rightarrow> py_val \<Rightarrow> error + py_val" where
  "apply_normalizers [] t v = Inr v"
| "apply_normalizers (f # fs) t v =
     (case f t v of Inl err \<Rightarrow> Inl err | Inr v' \<Rightarrow> apply_normalizers fs t v')"

fun map_abi_data ::
  "(string \<Rightarrow> py_val \<Rightarrow> error + py_val) list \<Rightarrow> string list \<Rightarrow> py_val list \<Rightarrow> error + py_val list" where
  "map_abi_data fs (t # ts) (v # vs) =
     (case apply_normalizers fs t v of
        Inl err \<Rightarrow> Inl err
      | Inr v' \<Rightarrow>
          (case map_abi_data fs ts vs of Inl err \<Rightarrow> Inl err | Inr vs' \<Rightarrow> Inr (v' # vs')))"
| "map_abi_data fs _ _ = Inr []"

text \<open>
  The generator inside \<^verbatim>\<open>''.join(...)\<close>: the pairs of \<^verbatim>\<open>zip\<close> are encoded from left to
  right and the first exception ends the call.
\<close>

fun encode_all :: "env \<Rightarrow> (string \<times> py_val) list \<Rightarrow> error + string list" where
  "encode_all e [] = Inr []"
| "encode_all e ((abi_type, v) # rest) =
     (case hex_encode_abi_type e abi_type v of
        Inl err \<Rightarrow> Inl err
      | Inr h \<Rightarrow>
          (case encode_all e rest of
             Inl err \<Rightarrow> Inl err
           | Inr hs \<Rightarrow> Inr (remove_0x_prefix h # hs)))"

definition length_mismatch_message :: "nat \<Rightarrow> nat \<Rightarrow> string" where
  "length_mismatch_message n_types n_values =
     ''Length mismatch between provided abi types and values.  Got '' @ str_nat n_types @
     '' types and '' @ str_nat n_values @ '' values.''"

text \<open>
  \<^verbatim>\<open>solidityKeccak\<close> is a combomethod: \<open>cls\<close> is \<open>None\<close> when it is called on the class
  (\<^verbatim>\<open>isinstance(cls, type)\<close>) and the instance otherwise.
\<close>

definition solidityKeccak ::
  "env \<Rightarrow> facade option \<Rightarrow> string list \<Rightarrow> py_val list \<Rightarrow> error + hexbytes" where
  "solidityKeccak e cls abi_types values =
     (if length abi_types \<noteq> length values
      then Inl (ValueError (length_mismatch_message (length abi_types) (length values)))
      else
        (let w3 = cls in
         case map_abi_data [abi_ens_resolver e w3] abi_types values of
           Inl err \<Rightarrow> Inl err
         | Inr normalized_values \<Rightarrow>
             (case encode_all e (zip abi_types normalized_values) of
                Inl err \<Rightarrow> Inl err
              | Inr pieces \<Rightarrow> keccak e PNone None (Some (add_0x_prefix (concat pieces))))))"

section \<open>The module composer: \<^verbatim>\<open>Web3.__init__\<close>\<close>

record module_spec =
  name :: string
  module :: string
  submodules :: "(string \<times> string) list option"

definition get_default_modules :: "module_spec list" where
  "get_default_modules =
     [\<lparr>name = ''eth'', module = ''Eth'', submodules = None\<rparr>,
      \<lparr>name = ''net'', module = ''Net'', submodules = None\<rparr>,
      \<lparr>name = ''version'', module = ''Version'', submodules = None\<rparr>,
      \<lparr>name = ''txpool'', module = ''TxPool'', submodules = None\<rparr>,
      \<lparr>name = ''miner'', module = ''Miner'', submodules = None\<rparr>,
      \<lparr>name = ''admin'', module = ''Admin'', submodules = None\<rparr>,
      \<lparr>name = ''parity'', module = ''Parity'',
        submodules = Some [(''personal'', ''ParityPersonal'')]\<rparr>,
      \<lparr>name = ''geth'', module = ''Geth'', submodules = Some [(''personal'', ''GethPersonal'')]\<rparr>,
      \<lparr>name = ''testing'', module = ''Testing'', submodules = None\<rparr>]"

subsection \<open>The attribute namespace of a \<^verbatim>\<open>Web3\<close> object\<close>

text \<open>
  The names the class body of \<^verbatim>\<open>Web3\<close> defines whose lookup on an instance always
  succeeds: the class attributes, the static methods, the methods, and the properties
  \<^verbatim>\<open>middleware_onion\<close> and \<^verbatim>\<open>provider\<close>, which read the manager. The properties
  \<^verbatim>\<open>ens\<close> and \<^verbatim>\<open>pm\<close> are treated apart, since their getters read \<^verbatim>\<open>_ens\<close> and
  \<^verbatim>\<open>_pm\<close>.
\<close>

definition Web3_class_names :: "string list" where
  "Web3_class_names =
     [''HTTPProvider'', ''IPCProvider'', ''EthereumTesterProvider'', ''WebsocketProvider'',
      ''RequestManager'', ''Iban'',
      ''toBytes'', ''toInt'', ''toHex'', ''toText'', ''toJSON'',
      ''toWei'', ''fromWei'',
      ''isAddress'', ''isChecksumAddress'', ''toChecksumAddress'',
      ''middleware_onion'', ''provider'', ''keccak'', ''solidityKeccak'', ''isConnected'',
      ''enable_unstable_package_management_api'']"

text \<open>The names every instance of a Python 3 class has, from \<^verbatim>\<open>object\<close> and its class.\<close>

definition object_names :: "string list" where
  "object_names =
     [''__class__'', ''__delattr__'', ''__dict__'', ''__dir__'', ''__doc__'', ''__eq__'',
      ''__format__'', ''__ge__'', ''__getattribute__'', ''__getstate__'', ''__gt__'',
      ''__hash__'', ''__init__'', ''__init_subclass__'', ''__le__'', ''__lt__'',
      ''__module__'', ''__ne__'', ''__new__'', ''__reduce__'', ''__reduce_ex__'',
      ''__repr__'', ''__setattr__'', ''__sizeof__'', ''__str__'', ''__subclasshook__'',
      ''__weakref__'']"

definition bound_in :: "(string \<times> pyobj) list \<Rightarrow> string \<Rightarrow> bool" where
  "bound_in d n = (case map_of d n of None \<Rightarrow> False | Some _ \<Rightarrow> True)"

text \<open>
  \<^verbatim>\<open>hasattr(self, n)\<close> on a \<^verbatim>\<open>Web3\<close> object: true when looking \<open>n\<close> up raises no
  \<open>AttributeError\<close>. \<open>held\<close> lists the instance attributes held outside the dictionary
  \<open>d\<close>: \<^verbatim>\<open>manager\<close> while the constructor's loop runs, \<^verbatim>\<open>manager\<close> and \<^verbatim>\<open>_ens\<close> on a
  constructed object. The getter of \<^verbatim>\<open>ens\<close> (lines 200-205) reads \<^verbatim>\<open>self._ens\<close> and the
  getter of \<^verbatim>\<open>pm\<close> (lines 211-220) raises \<open>AttributeError\<close> unless \<^verbatim>\<open>_pm\<close> is there.
\<close>

definition hasattr_Web3 :: "string list \<Rightarrow> (string \<times> pyobj) list \<Rightarrow> string \<Rightarrow> bool" where
  "hasattr_Web3 held d n =
     (if n = ''ens'' then ''_ens'' \<in> set held \<or> bound_in d ''_ens''
      else if n = ''pm'' then bound_in d ''_pm''
      else n \<in> set held \<or> bound_in d n \<or> n \<in> set Web3_class_names \<or> n \<in> set object_names)"

text \<open>
  \<^verbatim>\<open>setattr(self, n, v)\<close> on a \<^verbatim>\<open>Web3\<close> object, for a name that \<^verbatim>\<open>hasattr\<close> has just
  denied (the only names \<^verbatim>\<open>attach\<close> sets): the property \<^verbatim>\<open>pm\<close> has no setter, the setter
  of \<^verbatim>\<open>ens\<close> (lines 207-209) binds \<^verbatim>\<open>_ens\<close>, and any other name becomes an instance
  attribute.
\<close>

definition setattr_Web3 ::
  "(string \<times> pyobj) list \<Rightarrow> string \<Rightarrow> pyobj \<Rightarrow> error + (string \<times> pyobj) list" where
  "setattr_Web3 d n v =
     (if n = ''pm'' then Inl (AttributeError (''can'' @ [CHR 0x27] @ ''t set attribute''))
      else if n = ''ens'' then Inr (AList.update ''_ens'' v d)
      else Inr (AList.update n v d))"

definition no_attribute_message :: "string \<Rightarrow> string" where
  "no_attribute_message n =
     [CHR 0x27] @ ''Web3'' @ [CHR 0x27] @ '' object has no attribute '' @ [CHR 0x27] @ n @ [CHR 0x27]"

text \<open>
  \<^verbatim>\<open>getattr(self, n)\<close> for the name of a module the loop has just attached: the object
  bound under \<open>n\<close> (through the getter of \<^verbatim>\<open>ens\<close>, the object bound under \<^verbatim>\<open>_ens\<close>), and
  \<open>AttributeError\<close> when there is none. \<open>slot\<close> is the dictionary key that holds it.
\<close>

definition slot :: "string \<Rightarrow> string" where
  "slot n = (if n = ''ens'' then ''_ens'' else n)"

definition getattr_Web3 :: "(string \<times> pyobj) list \<Rightarrow> string \<Rightarrow> error + pyobj" where
  "getattr_Web3 d n =
     (case map_of d (slot n) of
        None \<Rightarrow> Inl (AttributeError (no_attribute_message n))
      | Some ob \<Rightarrow> Inr ob)"

text \<open>
  The same for a module object, the host of a submodule: it has the names its class gives
  every instance (\<open>instance_names\<close>) and the names attached to it.
\<close>

definition hasattr_obj :: "env \<Rightarrow> pyobj \<Rightarrow> string \<Rightarrow> bool" where
  "hasattr_obj e ob n = (n \<in> set (instance_names e (obj_class ob)) \<or> bound_in (obj_fields ob) n)"

definition setattr_obj :: "pyobj \<Rightarrow> string \<Rightarrow> pyobj \<Rightarrow> error + pyobj" where
  "setattr_obj ob n v = Inr (Obj (obj_class ob) (AList.update n v (obj_fields ob)))"

subsection \<open>\<^verbatim>\<open>Module.attach\<close>\<close>

definition lower_char :: "char \<Rightarrow> char" where
  "lower_char c =
     (if 65 \<le> (of_char c :: nat) \<and> (of_char c :: nat) \<le> 90 then char_of ((of_char c :: nat) + 32)
      else c)"

definition already_attached_message :: "string \<Rightarrow> string" where
  "already_attached_message module_name =
     ''Cannot set {0} module named '' @ [CHR 0x27] @ module_name @ [CHR 0x27] @
     ''.  The web3 object already has an attribute with that name''"

text \<open>
  Modelled from the spec: \<^verbatim>\<open>Module.attach\<close> (\<^verbatim>\<open>web3/module.py\<close>) is not part of
  \<^verbatim>\<open>web3/main.py\<close>. "\<open>Capability.attach(host, name) -> void\<close>: binds a callable namespace
  onto \<open>host\<close> under \<open>name\<close>"; it is "responsible for creating and binding a sub-object
  accessible as \<open>facade.<name>\<close>"; "detecting a collision fails with \<open>CompositionError\<close>
  rather than silently overwriting", that error being raised for "duplicate or missing
  names during attach". So \<^verbatim>\<open>attach\<close> refuses a name the host already has (with Python's
  \<open>AttributeError\<close>; the place of the host in the message is left as \<^verbatim>\<open>{0}\<close>) and otherwise
  sets the name to a fresh instance of the module class, which starts without
  sub-namespaces. The name is optional: without one (an empty name counts as none) the
  lower-cased name of the class is used. A module class is known by its name; the host is
  given by its \<^verbatim>\<open>hasattr\<close> and \<^verbatim>\<open>setattr\<close>.
\<close>

definition attach_name :: "string \<Rightarrow> string \<Rightarrow> string" where
  "attach_name module_cls module_name =
     (if module_name = [] then map lower_char module_cls else module_name)"

definition Module_attach ::
  "(string \<Rightarrow> bool) \<Rightarrow> (string \<Rightarrow> pyobj \<Rightarrow> error + 'h) \<Rightarrow> string \<Rightarrow> string \<Rightarrow> error + 'h" where
  "Module_attach hasattr_target setattr_target module_cls module_name =
     (if hasattr_target (attach_name module_cls module_name)
      then Inl (AttributeError (already_attached_message (attach_name module_cls module_name)))
      else setattr_target (attach_name module_cls module_name) (Obj module_cls []))"

subsection \<open>The loop of the constructor\<close>

text \<open>
  While the loop runs, the object has the attribute \<^verbatim>\<open>manager\<close> and what the loop has
  attached so far, the dictionary \<open>d\<close>; \<^verbatim>\<open>_ens\<close> is not bound yet, unless the loop binds
  it. \<^verbatim>\<open>submodule.attach(getattr(self, module['name']), subname)\<close> changes the object bound
  under the module's name in place; the facade sees the change, so the changed object is
  put back into its slot.
\<close>

fun attach_submodules ::
  "env \<Rightarrow> (string \<times> pyobj) list \<Rightarrow> string \<Rightarrow> (string \<times> string) list \<Rightarrow>
     error + (string \<times> pyobj) list" where
  "attach_submodules e d module_name [] = Inr d"
| "attach_submodules e d module_name ((subname, submodule) # rest) =
     (case getattr_Web3 d module_name of
        Inl err \<Rightarrow> Inl err
      | Inr parent \<Rightarrow>
          (case Module_attach (hasattr_obj e parent) (setattr_obj parent) submodule subname of
             Inl err \<Rightarrow> Inl err
           | Inr parent' \<Rightarrow>
               attach_submodules e (AList.update (slot module_name) parent' d) module_name rest))"

text \<open>One turn of the loop over \<^verbatim>\<open>modules\<close>, then the loop.\<close>

definition attach_module ::
  "env \<Rightarrow> (string \<times> pyobj) list \<Rightarrow> module_spec \<Rightarrow> error + (string \<times> pyobj) list" where
  "attach_module e d m =
     (case Module_attach (hasattr_Web3 [''manager''] d) (setattr_Web3 d) (module m) (name m) of
        Inl err \<Rightarrow> Inl err
      | Inr d1 \<Rightarrow>
          (case submodules m of
             None \<Rightarrow> Inr d1
           | Some subs \<Rightarrow> attach_submodules e d1 (name m) subs))"

fun attach_modules ::
  "env \<Rightarrow> (string \<times> pyobj) list \<Rightarrow> module_spec list \<Rightarrow> error + (string \<times> pyobj) list" where
  "attach_modules e d [] = Inr d"
| "attach_modules e d (m # rest) =
     (case attach_module e d m of
        Inl err \<Rightarrow> Inl err
      | Inr d' \<Rightarrow> attach_modules e d' rest)"

text \<open>
  The constructor: the manager first (line 130), then the modules in list order, then the
  resolver (line 141: \<^verbatim>\<open>self.ens = ens\<close>, that is \<^verbatim>\<open>self._ens = ens\<close>). That last
  assignment rebinds \<^verbatim>\<open>_ens\<close>: a namespace the loop had bound under that name is gone
  from the constructed object.
\<close>

definition Web3_init ::
  "env \<Rightarrow> py_val \<Rightarrow> py_val list option \<Rightarrow> module_spec list option \<Rightarrow> py_val \<Rightarrow> error + facade" where
  "Web3_init e provider_arg middlewares modules ens =
     (let modules' = (case modules of None \<Rightarrow> get_default_modules | Some ms \<Rightarrow> ms)
      in case attach_modules e [] modules' of
           Inl err \<Rightarrow> Inl err
         | Inr d \<Rightarrow>
             Inr \<lparr>manager = RequestManager e provider_arg middlewares,
                  attrs = AList.delete ''_ens'' d,
                  private_ens = ens\<rparr>)"

section \<open>The dispatch accessor and the gated namespace\<close>

text \<open>
  The properties \<^verbatim>\<open>middleware_onion\<close> and \<^verbatim>\<open>provider\<close> forward to the manager; the setter
  of \<^verbatim>\<open>provider\<close> is \<^verbatim>\<open>self.manager.provider = provider\<close>.
\<close>

definition Web3_middleware_onion :: "facade \<Rightarrow> py_val list" where
  "Web3_middleware_onion self = middleware_onion (manager self)"

definition Web3_provider :: "facade \<Rightarrow> py_val" where
  "Web3_provider self = provider (manager self)"

definition Web3_provider_set :: "facade \<Rightarrow> py_val \<Rightarrow> facade" where
  "Web3_provider_set self new_provider = self\<lparr>manager := (manager self)\<lparr>provider := new_provider\<rparr>\<rparr>"

definition pm_disabled_message :: string where
  "pm_disabled_message =
     ''The Package Management feature is disabled by default until '' @
     ''its API stabilizes. To use these features, please enable them by running '' @
     ''`w3.enable_unstable_package_management_api()` and try again.''"

definition Web3_pm :: "facade \<Rightarrow> error + pyobj" where
  "Web3_pm self =
     (case map_of (attrs self) ''_pm'' of
        Some p \<Rightarrow> Inr p
      | None \<Rightarrow> Inl (AttributeError pm_disabled_message))"

text \<open>
  \<^verbatim>\<open>PM.attach(self, '_pm')\<close> on the constructed object; \<^verbatim>\<open>PM\<close> is a module class and
  \<^verbatim>\<open>attach\<close> the class method above.
\<close>

definition enable_unstable_package_management_api :: "facade \<Rightarrow> error + facade" where
  "enable_unstable_package_management_api self =
     (case Module_attach (hasattr_Web3 [''manager'', ''_ens''] (attrs self))
             (setattr_Web3 (attrs self)) ''PM'' ''_pm'' of
        Inl err \<Rightarrow> Inl err
      | Inr d \<Rightarrow> Inr (self\<lparr>attrs := d\<rparr>))"

section \<open>Notions used in the statements\<close>






text \<open>\<open>AttributeError\<close> is the exception class of a failed attribute lookup.\<close>

fun is_attribute_error :: "error \<Rightarrow> bool" where
  "is_attribute_error (AttributeError _) = True"
| "is_attribute_error _ = False"

section \<open>Inputs for evaluating the model\<close>

text \<open>
  A concrete environment and a concrete facade, used where a statement is evaluated on an
  example. The hash of the example environment reads the buffer as a big-endian number; it
  stands for the library function only in examples.
\<close>

definition sample_env :: env where
  "sample_env =
     \<lparr>eth_utils_keccak = (\<lambda>bs. word_of_int (be_value bs)),
      RequestManager =
        (\<lambda>p ms. \<lparr>provider = p, middleware_onion = (case ms of None \<Rightarrow> [] | Some l \<Rightarrow> l)\<rparr>),
      is_ens_name = (\<lambda>s. drop (length s - 4) s = ''.eth''),
      resolve =
        (\<lambda>r s. case r of
                 Stored (PObject _) \<Rightarrow> Inr (PStr ''0x00000000000000000000000000000000000000aa'')
               | _ \<Rightarrow> Inl (ValueError (''Could not resolve '' @ s))),
      hex_encode_other =
        (\<lambda>t v. case v of
                 PStr s \<Rightarrow> if t = ''address'' then Inr s
                           else Inl (ValueError (''Unsupported ABI type: '' @ t))
               | _ \<Rightarrow> Inl (ValueError (''Unsupported ABI type: '' @ t))),
      instance_names = (\<lambda>c. [''web3'', ''attach''] @ object_names)\<rparr>"

definition sample_facade :: facade where
  "sample_facade =
     \<lparr>manager = \<lparr>provider = PObject ''HTTPProvider'',
                  middleware_onion = [PObject ''gas_price_strategy'']\<rparr>,
      attrs = [(''eth'', Obj ''Eth'' [])],
      private_ens = PEmpty\<rparr>"

definition default_facade :: facade where
  "default_facade = projr (Web3_init sample_env (PObject ''HTTPProvider'') None None PEmpty)"

section \<open>Hexadecimal text, big-endian bytes and decimal text\<close>

lemma hex_val_hex_digit: "d < 16 \<Longrightarrow> hex_val (hex_digit d) = Some d"
  by (auto simp: hex_val_def hex_digit_def Let_def)

lemma of_char_hex_digit:
  "d < 16 \<Longrightarrow> (of_char (hex_digit d) :: nat) = (if d < 10 then 48 + d else 87 + d)"
  by (auto simp: hex_digit_def)

lemma hex_digit_not_x: 
  assumes "d < 16" shows "hex_digit d \<noteq> CHR ''x''" and "hex_digit d \<noteq> CHR ''X''"
proof -
  have "(of_char (hex_digit d) :: nat) \<noteq> 120" "(of_char (hex_digit d) :: nat) \<noteq> 88"
    using assms by (auto simp: of_char_hex_digit)
  then show "hex_digit d \<noteq> CHR ''x''" and "hex_digit d \<noteq> CHR ''X''"
    by auto
qed

lemma byte_split: "of_nat (16 * (unat b div 16) + unat b mod 16) = (b :: byte)"
  by simp

lemma unat_byte_div16: "unat (b :: byte) div 16 < 16"
proof -
  have "unat b < 256" using unsigned_less [of b, where ?'a = nat] by simp
  then show ?thesis by simp
qed

lemma decode_pairs_byte_hex:
  "decode_pairs (byte_hex b @ s) = map_option ((#) b) (decode_pairs s)"
  by (cases "decode_pairs s") (simp_all add: byte_hex_def hex_val_hex_digit unat_byte_div16)

lemma decode_pairs_encode_hex_append:
  "decode_pairs (encode_hex bs @ s) = map_option ((@) bs) (decode_pairs s)"
proof (induction bs)
  case Nil
  show ?case by (simp add: encode_hex_def option.map_ident)
next
  case (Cons b bs)
  have "decode_pairs (encode_hex (b # bs) @ s) = decode_pairs (byte_hex b @ (encode_hex bs @ s))"
    by (simp add: encode_hex_def)
  also have "\<dots> = map_option ((#) b) (map_option ((@) bs) (decode_pairs s))"
    by (simp only: decode_pairs_byte_hex Cons.IH)
  finally show ?case by (cases "decode_pairs s") simp_all
qed

lemma decode_pairs_encode_hex: "decode_pairs (encode_hex bs) = Some bs"
  using decode_pairs_encode_hex_append [of bs "[]"] by simp

lemma encode_hex_append: "encode_hex (xs @ ys) = encode_hex xs @ encode_hex ys"
  by (simp add: encode_hex_def)

lemma encode_hex_not_prefixed: "\<not> is_0x_prefixed (encode_hex bs)"
proof (cases bs)
  case Nil
  then show ?thesis by (simp add: is_0x_prefixed_def encode_hex_def)
next
  case (Cons b rest)
  have "unat b mod 16 < 16" by simp
  from hex_digit_not_x [OF this] show ?thesis
    by (simp add: Cons is_0x_prefixed_def encode_hex_def byte_hex_def)
qed

lemma remove_0x_prefix_0x: "remove_0x_prefix (CHR ''0'' # CHR ''x'' # s) = s"
  by (simp add: remove_0x_prefix_def is_0x_prefixed_def)

lemma to_bytes_hexstr_encode_hex:
  "to_bytes PNone (Some (add_0x_prefix (encode_hex bs))) None = Inr bs"
  by (simp add: to_bytes_def num_given_def add_0x_prefix_def encode_hex_not_prefixed
      remove_0x_prefix_0x decode_pairs_encode_hex)

lemma length_digest_bytes: "length (digest_bytes d) = 32"
  by (simp add: digest_bytes_def)

lemma length_be_bytes: "length (be_bytes k v) = k"
  by (induction k arbitrary: v) auto

lemma be_value_snoc: "be_value (bs @ [b]) = be_value bs * 256 + uint b"
  by (simp add: be_value_def)

lemma be_value_be_bytes: "be_value (be_bytes k v) = v mod 256 ^ k"
proof (induction k arbitrary: v)
  case 0
  show ?case by (simp add: be_value_def)
next
  case (Suc k)
  have "uint (word_of_int v :: byte) = v mod 256"
    by (simp add: uint_word_of_int)
  then have "be_value (be_bytes (Suc k) v) = (v div 256) mod 256 ^ k * 256 + v mod 256"
    by (simp add: be_value_snoc Suc.IH)
  also have "\<dots> = v mod 256 ^ Suc k"
    using zmod_zmult2_eq [of "256 ^ k" v 256] by simp
  finally show ?case .
qed

lemma digits_val_append:
  "digits_val (xs @ ys) acc = (case digits_val xs acc of None \<Rightarrow> None | Some a \<Rightarrow> digits_val ys a)"
  by (induction xs arbitrary: acc) auto

lemma digits_val_digit: "d < 10 \<Longrightarrow> digits_val [digit_char d] acc = Some (10 * acc + d)"
  by (auto simp: digit_char_def is_digit_def)

lemma digits_val_str_nat: "digits_val (str_nat n) 0 = Some n"
proof (induction n rule: str_nat.induct)
  case (1 n)
  show ?case
  proof (cases "n < 10")
    case True
    then show ?thesis by (subst str_nat.simps) (simp add: digits_val_digit del: digits_val.simps)
  next
    case False
    with 1 have "digits_val (str_nat (n div 10)) 0 = Some (n div 10)" by simp
    with False show ?thesis
      by (subst str_nat.simps) (simp add: digits_val_append digits_val_digit del: digits_val.simps)
  qed
qed

lemma keccak_hexstr_encode_hex:
  "keccak e PNone None (Some (add_0x_prefix (encode_hex bs))) =
     Inr (HexBytes (digest_bytes (eth_utils_keccak e bs)))"
  by (simp add: keccak_def to_bytes_hexstr_encode_hex)

section \<open>The arity check of \<^verbatim>\<open>solidityKeccak\<close>\<close>

text \<open>
  C1: whenever the two lists differ in length, \<^verbatim>\<open>solidityKeccak\<close> raises the
  \<open>ValueError\<close> whose message gives both lengths in decimal (each number reads back from
  the message text). The environment is arbitrary: whatever normalization, encoding and
  hashing would do, none of it is reached, so no digest comes out.
\<close>

theorem solidityKeccak_length_mismatch:
  "length abi_types \<noteq> length values \<Longrightarrow>
     solidityKeccak e cls abi_types values =
       Inl (ValueError
         (''Length mismatch between provided abi types and values.  Got '' @
          str_nat (length abi_types) @ '' types and '' @ str_nat (length values) @ '' values.''))
     \<and> digits_val (str_nat (length abi_types)) 0 = Some (length abi_types)
     \<and> digits_val (str_nat (length values)) 0 = Some (length values)"
  by (simp add: solidityKeccak_def length_mismatch_message_def digits_val_str_nat)

theorem solidityKeccak_length_mismatch_witness:
  "length [''address'', ''uint8''] \<noteq> length [PStr ''alice.eth'']
   \<and> solidityKeccak sample_env (Some sample_facade) [''address'', ''uint8''] [PStr ''alice.eth''] =
       Inl (ValueError
         ''Length mismatch between provided abi types and values.  Got 2 types and 1 values.'')
   \<and> abi_ens_resolver sample_env (Some sample_facade) ''address'' (PStr ''alice.eth'') =
       Inl (ValueError ''Could not resolve alice.eth'')"
proof -
  have ne: "length [''address'', ''uint8''] \<noteq> length [PStr ''alice.eth'']"
    by simp
  have res: "abi_ens_resolver sample_env (Some sample_facade) ''address'' (PStr ''alice.eth'') =
      Inl (ValueError ''Could not resolve alice.eth'')"
    by (simp add: abi_ens_resolver_def sample_env_def sample_facade_def Web3_ens_def)
  have digits: "str_nat (Suc (Suc 0)) = ''2''" "str_nat (Suc 0) = ''1''"
    by code_simp+
  show ?thesis
    using solidityKeccak_length_mismatch [OF ne, of sample_env "Some sample_facade"] res
    by (simp add: digits)
qed

section \<open>\<^verbatim>\<open>keccak\<close>: the choice of input\<close>

text \<open>
  C3: a call of \<^verbatim>\<open>keccak\<close> that gives no representation, or more than one, or a first
  argument that is neither bytes nor an integer nor \<open>None\<close>, raises a \<open>TypeError\<close> that
  carries the inputs received: the first argument and both keywords. The unsupported
  first argument is refused by \<^verbatim>\<open>keccak\<close> itself, the wrong number of representations by
  \<^verbatim>\<open>to_bytes\<close>.
\<close>

theorem keccak_rejects_bad_selection:
  "num_given primitive hexstr text \<noteq> 1 \<or> \<not> is_bytes_int_or_none primitive \<Longrightarrow>
     keccak e primitive text hexstr =
       Inl (if is_bytes_int_or_none primitive
            then TypeError to_bytes_message [primitive, opt_str hexstr, opt_str text]
            else TypeError keccak_message
                   [primitive, PDict [(''text'', opt_str text), (''hexstr'', opt_str hexstr)]])"
  by (auto simp: keccak_def to_bytes_def)

theorem keccak_rejects_bad_selection_witness:
  "num_given PNone (Some ''0x616263'') (Some ''abc'') = 2
   \<and> num_given PNone None None = 0
   \<and> \<not> is_bytes_int_or_none (PStr ''abc'')
   \<and> keccak sample_env PNone (Some ''abc'') (Some ''0x616263'') =
       Inl (TypeError to_bytes_message [PNone, PStr ''0x616263'', PStr ''abc''])
   \<and> keccak sample_env PNone None None = Inl (TypeError to_bytes_message [PNone, PNone, PNone])
   \<and> keccak sample_env (PStr ''abc'') None None =
       Inl (TypeError keccak_message [PStr ''abc'', PDict [(''text'', PNone), (''hexstr'', PNone)]])"
  using keccak_rejects_bad_selection [of PNone "Some ''0x616263''" "Some ''abc''" sample_env]
    keccak_rejects_bad_selection [of PNone None None sample_env]
    keccak_rejects_bad_selection [of "PStr ''abc''" None None sample_env]
  by (simp add: num_given_def)

section \<open>\<^verbatim>\<open>keccak\<close>: three spellings of the same bytes\<close>

lemma keccak_text_hexstr_bytes_agree:
  "keccak e PNone (Some t) None = keccak e (PBytes (utf8 t)) None None"
  "keccak e PNone None (Some (add_0x_prefix (encode_hex (utf8 t)))) =
     keccak e (PBytes (utf8 t)) None None"
  by (simp_all add: keccak_hexstr_encode_hex) (simp_all add: keccak_def to_bytes_def num_given_def)

text \<open>
  C4: \<^verbatim>\<open>keccak(text='abc')\<close>, \<^verbatim>\<open>keccak(hexstr='0x616263')\<close> and \<^verbatim>\<open>keccak(b'abc')\<close>
  return the same value, the 32-byte digest of the bytes 61 62 63, whatever the hash
  function is.
\<close>

theorem keccak_three_representations:
  "keccak e PNone (Some ''abc'') None =
     Inr (HexBytes (digest_bytes (eth_utils_keccak e [0x61, 0x62, 0x63])))
   \<and> keccak e PNone None (Some ''0x616263'') =
     Inr (HexBytes (digest_bytes (eth_utils_keccak e [0x61, 0x62, 0x63])))
   \<and> keccak e (PBytes [0x61, 0x62, 0x63]) None None =
     Inr (HexBytes (digest_bytes (eth_utils_keccak e [0x61, 0x62, 0x63])))
   \<and> length (digest_bytes (eth_utils_keccak e [0x61, 0x62, 0x63])) = 32"
  by (simp add: keccak_def to_bytes_def num_given_def utf8_def remove_0x_prefix_def
      is_0x_prefixed_def hex_val_def length_digest_bytes)

section \<open>\<^verbatim>\<open>solidityKeccak\<close> on empty lists\<close>

text \<open>
  C10: \<^verbatim>\<open>solidityKeccak([], [])\<close> raises nothing. The arity check passes, there is
  nothing to normalize or encode, the joined text is the bare \<^verbatim>\<open>0x\<close> marker, which spells
  no bytes, and the result is the digest of the empty byte string.
\<close>

theorem solidityKeccak_empty:
  "solidityKeccak e cls [] [] = Inr (HexBytes (digest_bytes (eth_utils_keccak e [])))
   \<and> map_abi_data [abi_ens_resolver e cls] [] [] = Inr []
   \<and> encode_all e (zip [] []) = Inr []
   \<and> to_bytes PNone (Some (add_0x_prefix (concat []))) None = Inr []"
  by (simp add: solidityKeccak_def keccak_def to_bytes_def num_given_def add_0x_prefix_def
      is_0x_prefixed_def remove_0x_prefix_def)

section \<open>\<^verbatim>\<open>solidityKeccak\<close>: packed encoding at the declared width\<close>

lemma parse_abi_type_UInt: "parse_abi_type t = AbiUInt n \<Longrightarrow> valid_width n"
  by (auto simp: parse_abi_type_def sized_def split: if_splits option.splits)

lemma parse_abi_type_SInt: "parse_abi_type t = AbiSInt n \<Longrightarrow> valid_width n"
  by (auto simp: parse_abi_type_def sized_def split: if_splits option.splits)

lemma valid_width_bytes: "valid_width n \<Longrightarrow> 8 * (n div 8) = n"
  by (auto simp: valid_width_def)

lemma pow256: "(256::int) ^ k = 2 ^ (8 * k)"
  by (simp add: power_mult)

lemma be_value_be_bytes_width:
  "valid_width n \<Longrightarrow> be_value (be_bytes (n div 8) v) = v mod 2 ^ n"
  by (simp add: be_value_be_bytes pow256 valid_width_bytes)

lemma abi_ens_resolver_not_text:
  "\<forall>s. v \<noteq> PStr s \<Longrightarrow> abi_ens_resolver e w3 t v = Inr v"
  by (cases v; cases w3) (simp_all add: abi_ens_resolver_def)

lemma map_abi_data_unchanged:
  "\<forall>(t, v, bs)\<in>set xs. f t v = Inr v \<Longrightarrow>
     map_abi_data [f] (map fst xs) (map (fst \<circ> snd) xs) = Inr (map (fst \<circ> snd) xs)"
  by (induction xs) auto

lemma encode_all_hex:
  "\<forall>(t, v, bs)\<in>set xs. hex_encode_abi_type e t v = Inr (''0x'' @ encode_hex bs) \<Longrightarrow>
     encode_all e (zip (map fst xs) (map (fst \<circ> snd) xs)) =
       Inr (map (\<lambda>x. encode_hex (snd (snd x))) xs)"
  by (induction xs) (auto simp: remove_0x_prefix_0x)

lemma concat_encode_hex:
  "concat (map (\<lambda>x. encode_hex (f x)) xs) = encode_hex (concat (map f xs))"
  by (induction xs) (simp_all add: encode_hex_def)

lemma solidityKeccak_packed_concat:
  assumes "\<forall>(t, v, bs)\<in>set xs. abi_ens_resolver e cls t v = Inr v
             \<and> hex_encode_abi_type e t v = Inr (''0x'' @ encode_hex bs)"
  shows "solidityKeccak e cls (map fst xs) (map (fst \<circ> snd) xs) =
           Inr (HexBytes (digest_bytes (eth_utils_keccak e (concat (map (snd \<circ> snd) xs)))))"
proof -
  have norm: "map_abi_data [abi_ens_resolver e cls] (map fst xs) (map (fst \<circ> snd) xs) =
      Inr (map (fst \<circ> snd) xs)"
    using assms by (intro map_abi_data_unchanged) auto
  have "\<forall>(t, v, bs)\<in>set xs. hex_encode_abi_type e t v = Inr (''0x'' @ encode_hex bs)"
    using assms by auto
  then have enc: "encode_all e (zip (map fst xs) (map (fst \<circ> snd) xs)) =
      Inr (map (\<lambda>x. encode_hex (snd (snd x))) xs)"
    by (rule encode_all_hex)
  have "concat (map (\<lambda>x. encode_hex (snd (snd x))) xs) = encode_hex (concat (map (snd \<circ> snd) xs))"
    using concat_encode_hex [of "snd \<circ> snd" xs] by simp
  then show ?thesis
    by (simp add: solidityKeccak_def norm enc keccak_hexstr_encode_hex)
qed

lemma solidityKeccak_single:
  assumes "abi_ens_resolver e cls t v = Inr v"
    and "hex_encode_abi_type e t v = Inr (''0x'' @ encode_hex bs)"
  shows "solidityKeccak e cls [t] [v] = Inr (HexBytes (digest_bytes (eth_utils_keccak e bs)))"
  using solidityKeccak_packed_concat [of "[(t, v, bs)]" e cls] assms by simp

lemma parse_uint8: "parse_abi_type ''uint8'' = AbiUInt 8"
  by (simp add: parse_abi_type_def sized_def parse_size_def is_digit_def valid_width_def)

lemma parse_bool: "parse_abi_type ''bool'' = AbiBool"
  by (simp add: parse_abi_type_def)

text \<open>
  C5: \<^verbatim>\<open>solidityKeccak(['uint8'], [5])\<close> hashes the single byte 05 and
  \<^verbatim>\<open>solidityKeccak(['bool'], [True])\<close> the single byte 01, for every hash function, so
  nothing is padded to 32 bytes. In general an unsigned integer of a declared width of \<open>n\<close>
  bits, within range, is hashed as \<open>n / 8\<close> bytes whose big-endian value is the integer; a
  signed one as \<open>n / 8\<close> bytes whose big-endian value is the integer modulo \<open>2 ^ n\<close>
  (two's complement).
\<close>

theorem solidityKeccak_exact_width:
  "solidityKeccak e cls [''uint8''] [PInt 5] =
     Inr (HexBytes (digest_bytes (eth_utils_keccak e [0x05])))
   \<and> solidityKeccak e cls [''bool''] [PBool True] =
     Inr (HexBytes (digest_bytes (eth_utils_keccak e [0x01])))
   \<and> (parse_abi_type t = AbiUInt n \<longrightarrow> 0 \<le> v \<longrightarrow> v < 2 ^ n \<longrightarrow>
        solidityKeccak e cls [t] [PInt v] =
          Inr (HexBytes (digest_bytes (eth_utils_keccak e (be_bytes (n div 8) v))))
        \<and> 8 * length (be_bytes (n div 8) v) = n
        \<and> be_value (be_bytes (n div 8) v) = v)
   \<and> (parse_abi_type t = AbiSInt n \<longrightarrow> - (2 ^ (n - 1)) \<le> v \<longrightarrow> v < 2 ^ (n - 1) \<longrightarrow>
        solidityKeccak e cls [t] [PInt v] =
          Inr (HexBytes (digest_bytes (eth_utils_keccak e (be_bytes (n div 8) v))))
        \<and> 8 * length (be_bytes (n div 8) v) = n
        \<and> be_value (be_bytes (n div 8) v) = v mod 2 ^ n)"
proof (intro conjI impI)
  have "hex_encode_abi_type e ''uint8'' (PInt 5) = Inr (''0x'' @ encode_hex [0x05])"
    by (simp add: hex_encode_abi_type_def parse_uint8)
  then show "solidityKeccak e cls [''uint8''] [PInt 5] =
      Inr (HexBytes (digest_bytes (eth_utils_keccak e [0x05])))"
    by (intro solidityKeccak_single abi_ens_resolver_not_text) simp_all
next
  have "hex_encode_abi_type e ''bool'' (PBool True) = Inr (''0x'' @ encode_hex [0x01])"
    by (simp add: hex_encode_abi_type_def parse_bool)
  then show "solidityKeccak e cls [''bool''] [PBool True] =
      Inr (HexBytes (digest_bytes (eth_utils_keccak e [0x01])))"
    by (intro solidityKeccak_single abi_ens_resolver_not_text) simp_all
next
  assume p: "parse_abi_type t = AbiUInt n" and r: "0 \<le> v" "v < 2 ^ n"
  then have "hex_encode_abi_type e t (PInt v) = Inr (''0x'' @ encode_hex (be_bytes (n div 8) v))"
    by (simp add: hex_encode_abi_type_def)
  then show "solidityKeccak e cls [t] [PInt v] =
      Inr (HexBytes (digest_bytes (eth_utils_keccak e (be_bytes (n div 8) v))))"
    by (intro solidityKeccak_single abi_ens_resolver_not_text) simp_all
  show "8 * length (be_bytes (n div 8) v) = n"
    using parse_abi_type_UInt [OF p] by (simp add: length_be_bytes valid_width_bytes)
  show "be_value (be_bytes (n div 8) v) = v"
    using parse_abi_type_UInt [OF p] r by (simp add: be_value_be_bytes_width)
next
  assume p: "parse_abi_type t = AbiSInt n" and r: "- (2 ^ (n - 1)) \<le> v" "v < 2 ^ (n - 1)"
  then have "hex_encode_abi_type e t (PInt v) = Inr (''0x'' @ encode_hex (be_bytes (n div 8) v))"
    by (simp add: hex_encode_abi_type_def)
  then show "solidityKeccak e cls [t] [PInt v] =
      Inr (HexBytes (digest_bytes (eth_utils_keccak e (be_bytes (n div 8) v))))"
    by (intro solidityKeccak_single abi_ens_resolver_not_text) simp_all
  show "8 * length (be_bytes (n div 8) v) = n"
    using parse_abi_type_SInt [OF p] by (simp add: length_be_bytes valid_width_bytes)
  show "be_value (be_bytes (n div 8) v) = v mod 2 ^ n"
    using parse_abi_type_SInt [OF p] by (simp add: be_value_be_bytes_width)
qed

theorem solidityKeccak_exact_width_witness:
  "parse_abi_type ''uint16'' = AbiUInt 16
   \<and> solidityKeccak sample_env None [''uint16''] [PInt 258] =
       Inr (HexBytes (digest_bytes (eth_utils_keccak sample_env [0x01, 0x02])))
   \<and> parse_abi_type ''int8'' = AbiSInt 8
   \<and> solidityKeccak sample_env (Some sample_facade) [''int8''] [PInt (- 1)] =
       Inr (HexBytes (digest_bytes (eth_utils_keccak sample_env [0xFF])))
   \<and> be_value [0x01, 0x02] = 258
   \<and> be_value [0xFF] = (- 1) mod 2 ^ 8"
proof -
  have p16: "parse_abi_type ''uint16'' = AbiUInt 16" by code_simp
  have p8: "parse_abi_type ''int8'' = AbiSInt 8" by code_simp
  have b16: "be_bytes 2 258 = [0x01, 0x02]" by code_simp
  have b8: "(- 1 :: byte) = 0xFF" by simp
  have v16: "be_value [0x01, 0x02] = 258" by (simp add: be_value_def)
  have v8: "be_value [0xFF] = 255" by (simp add: be_value_def)
  show ?thesis
    using solidityKeccak_exact_width [of sample_env None "''uint16''" 16 258]
      solidityKeccak_exact_width [of sample_env "Some sample_facade" "''int8''" 8 "- 1"]
    by (simp add: p16 p8 b16 b8 v16 v8)
qed

section \<open>The provider property\<close>

lemma foldl_provider_set_onion:
  "Web3_middleware_onion (foldl Web3_provider_set self ps) = Web3_middleware_onion self"
  by (induction ps arbitrary: self) (simp_all add: Web3_middleware_onion_def Web3_provider_set_def)

text \<open>
  C7: assigning the facade's \<^verbatim>\<open>provider\<close> writes the manager's provider and nothing
  else: the new provider is read back, the middleware onion is the same list as before,
  after one assignment and after any sequence of assignments, and the attached namespaces
  and the resolver are untouched.
\<close>

theorem provider_set_keeps_middleware_onion:
  "Web3_provider (Web3_provider_set self p) = p
   \<and> manager (Web3_provider_set self p) = (manager self)\<lparr>provider := p\<rparr>
   \<and> Web3_middleware_onion (Web3_provider_set self p) = Web3_middleware_onion self
   \<and> Web3_middleware_onion (foldl Web3_provider_set self ps) = Web3_middleware_onion self
   \<and> attrs (Web3_provider_set self p) = attrs self
   \<and> private_ens (Web3_provider_set self p) = private_ens self"
  by (simp add: foldl_provider_set_onion)
    (simp add: Web3_provider_def Web3_provider_set_def Web3_middleware_onion_def)

section \<open>The resolver property\<close>

text \<open>
  C9, as stated, fails for one value: assigning the sentinel \<^verbatim>\<open>empty\<close> itself (which is
  what the constructor does by default) does not make \<^verbatim>\<open>ens\<close> return the sentinel.
\<close>

theorem ens_sentinel_assignment_counterexample:
  "Web3_ens (Web3_ens_set sample_facade PEmpty) \<noteq> Stored PEmpty"
  by (simp add: Web3_ens_def Web3_ens_set_def)

text \<open>
  C9, amended: while the stored value is the sentinel, reading \<^verbatim>\<open>ens\<close> gives the default
  resolver built from the facade as it is at that moment; after an assignment of any value
  other than the sentinel, \<open>None\<close> included, reading gives exactly that value; assigning
  the sentinel brings the default back.
\<close>

theorem ens_unset_or_explicit:
  "(private_ens self = PEmpty \<longrightarrow> Web3_ens self = FromWeb3 self)
   \<and> (v \<noteq> PEmpty \<longrightarrow> Web3_ens (Web3_ens_set self v) = Stored v)
   \<and> Web3_ens (Web3_ens_set self PNone) = Stored PNone
   \<and> Web3_ens (Web3_ens_set self PEmpty) = FromWeb3 (Web3_ens_set self PEmpty)"
  by (simp add: Web3_ens_def Web3_ens_set_def)

theorem ens_unset_or_explicit_witness:
  "private_ens sample_facade = PEmpty
   \<and> Web3_ens sample_facade = FromWeb3 sample_facade
   \<and> PObject ''ENS'' \<noteq> PEmpty
   \<and> Web3_ens (Web3_ens_set sample_facade (PObject ''ENS'')) = Stored (PObject ''ENS'')
   \<and> Web3_ens (Web3_ens_set sample_facade PNone) = Stored PNone"
  using ens_unset_or_explicit [of sample_facade "PObject ''ENS''"]
  by (simp add: sample_facade_def)

section \<open>The module composer\<close>


lemma bound_in_map_of: "bound_in d k = (map_of d k \<noteq> None)"
  by (simp add: bound_in_def split: option.splits)

































section \<open>The gated package-management namespace\<close>

text \<open>
  C8, as stated, fails in one point: the error raised before activation is an
  \<open>AttributeError\<close>, the exception class of attribute lookup itself, carrying a message
  about the disabled feature; it is not an error of another kind.
\<close>

theorem pm_before_activation_counterexample:
  "Web3_pm default_facade = Inl (AttributeError pm_disabled_message)
   \<and> is_attribute_error (projl (Web3_pm default_facade))"
  by code_simp

lemma slot_pm: "''_pm'' \<noteq> attach_name c n \<Longrightarrow> ''_pm'' \<noteq> slot (attach_name c n) \<and> ''_pm'' \<noteq> slot n"
  by (auto simp: slot_def attach_name_def split: if_splits)

lemma Module_attach_Web3_frame:
  "Module_attach (hasattr_Web3 h d) (setattr_Web3 d) c n = Inr d1 \<Longrightarrow> k \<noteq> slot (attach_name c n) \<Longrightarrow>
     map_of d1 k = map_of d k"
  by (auto simp: Module_attach_def setattr_Web3_def slot_def AList.update_conv' split: if_splits)

lemma attach_submodules_frame:
  "attach_submodules e d n subs = Inr d' \<Longrightarrow> k \<noteq> slot n \<Longrightarrow> map_of d' k = map_of d k"
proof (induction subs arbitrary: d)
  case Nil
  then show ?case by simp
next
  case (Cons sub subs)
  obtain subname submodule where sub: "sub = (subname, submodule)"
    by (cases sub)
  from Cons.prems(1) obtain parent' where
    "attach_submodules e (AList.update (slot n) parent' d) n subs = Inr d'"
    by (auto simp: sub split: sum.splits)
  then have "map_of d' k = map_of (AList.update (slot n) parent' d) k"
    using Cons.prems(2) by (rule Cons.IH)
  with Cons.prems(2) show ?case
    by (simp add: AList.update_conv')
qed

lemma attach_module_frame_pm:
  assumes "attach_module e d m = Inr d'" and "''_pm'' \<noteq> attach_name (module m) (name m)"
  shows "map_of d' ''_pm'' = map_of d ''_pm''"
proof -
  from slot_pm [OF assms(2)] have a: "''_pm'' \<noteq> slot (attach_name (module m) (name m))"
    and b: "''_pm'' \<noteq> slot (name m)"
    by simp_all
  from assms(1) obtain d1 where first:
    "Module_attach (hasattr_Web3 [''manager''] d) (setattr_Web3 d) (module m) (name m) = Inr d1"
    and second: "d' = d1 \<or> (\<exists>subs. attach_submodules e d1 (name m) subs = Inr d')"
    by (auto simp: attach_module_def split: sum.splits option.splits)
  from first a have "map_of d1 ''_pm'' = map_of d ''_pm''"
    by (rule Module_attach_Web3_frame)
  moreover from second b have "map_of d' ''_pm'' = map_of d1 ''_pm''"
    by (auto dest: attach_submodules_frame)
  ultimately show ?thesis by simp
qed

lemma attach_modules_frame_pm:
  "attach_modules e d ms = Inr d' \<Longrightarrow>
     ''_pm'' \<notin> set (map (\<lambda>m. attach_name (module m) (name m)) ms) \<Longrightarrow>
     map_of d' ''_pm'' = map_of d ''_pm''"
proof (induction ms arbitrary: d)
  case Nil
  then show ?case by simp
next
  case (Cons m ms)
  from Cons.prems(1) obtain d1 where one: "attach_module e d m = Inr d1"
    and rest: "attach_modules e d1 ms = Inr d'"
    by (auto split: sum.splits)
  from Cons.prems(2) have "''_pm'' \<noteq> attach_name (module m) (name m)"
    and names: "''_pm'' \<notin> set (map (\<lambda>m. attach_name (module m) (name m)) ms)"
    by auto
  with one have "map_of d1 ''_pm'' = map_of d ''_pm''"
    by (intro attach_module_frame_pm)
  moreover from rest names have "map_of d' ''_pm'' = map_of d1 ''_pm''"
    by (rule Cons.IH)
  ultimately show ?case by simp
qed

lemma Web3_pm_after_init:
  assumes "Web3_init e p mws (Some specs) ens = Inr w"
    and "''_pm'' \<notin> set (map (\<lambda>m. attach_name (module m) (name m)) specs)"
  shows "Web3_pm w = Inl (AttributeError pm_disabled_message)"
proof -
  from assms(1) obtain d where run: "attach_modules e [] specs = Inr d"
    and w: "attrs w = AList.delete ''_ens'' d"
    by (auto simp: Web3_init_def split: sum.splits)
  from run assms(2) have "map_of d ''_pm'' = None"
    using attach_modules_frame_pm [of e "[]" specs d] by simp
  then show ?thesis
    by (simp add: Web3_pm_def w)
qed

lemma default_modules_no_pm:
  "''_pm'' \<notin> set (map (\<lambda>m. attach_name (module m) (name m)) get_default_modules)"
  by (simp add: get_default_modules_def attach_name_def)

lemma hasattr_pm_constructed:
  "hasattr_Web3 [''manager'', ''_ens''] d ''_pm'' = bound_in d ''_pm''"
  by (simp add: hasattr_Web3_def Web3_class_names_def object_names_def)

lemma enable_when_disabled:
  "map_of (attrs self) ''_pm'' = None \<Longrightarrow>
     enable_unstable_package_management_api self =
       Inr (self\<lparr>attrs := AList.update ''_pm'' (Obj ''PM'' []) (attrs self)\<rparr>)"
  by (simp add: enable_unstable_package_management_api_def Module_attach_def attach_name_def
      hasattr_pm_constructed bound_in_def setattr_Web3_def)

lemma enable_when_enabled:
  "map_of (attrs self) ''_pm'' = Some ob \<Longrightarrow>
     enable_unstable_package_management_api self =
       Inl (AttributeError (already_attached_message ''_pm''))"
  by (simp add: enable_unstable_package_management_api_def Module_attach_def attach_name_def
      hasattr_pm_constructed bound_in_def)

text \<open>
  C8, amended: on a facade without the attribute \<^verbatim>\<open>_pm\<close> (in particular a facade just
  constructed from the default modules, or from any module list that binds nothing under
  that name), reading \<^verbatim>\<open>pm\<close> raises an \<open>AttributeError\<close> whose message says that the package
  management feature is disabled and names the activation call; the activation call
  \<^verbatim>\<open>enable_unstable_package_management_api\<close> then binds the \<^verbatim>\<open>PM\<close> object and reading
  \<^verbatim>\<open>pm\<close> gives it. After the activation call \<^verbatim>\<open>pm\<close> resolves in every case, also when
  the call itself was refused because \<^verbatim>\<open>_pm\<close> was bound already.
\<close>

theorem pm_gate:
  "(map_of (attrs self) ''_pm'' = None \<longrightarrow>
      Web3_pm self = Inl (AttributeError pm_disabled_message))
   \<and> (Web3_init e p mws (Some specs) ens = Inr w \<longrightarrow>
      ''_pm'' \<notin> set (map (\<lambda>m. attach_name (module m) (name m)) specs) \<longrightarrow>
      Web3_pm w = Inl (AttributeError pm_disabled_message))
   \<and> (Web3_init e p mws None ens = Inr w \<longrightarrow>
      Web3_pm w = Inl (AttributeError pm_disabled_message))
   \<and> (map_of (attrs self) ''_pm'' = None \<longrightarrow>
      enable_unstable_package_management_api self =
        Inr (self\<lparr>attrs := AList.update ''_pm'' (Obj ''PM'' []) (attrs self)\<rparr>) \<and>
      Web3_pm (self\<lparr>attrs := AList.update ''_pm'' (Obj ''PM'' []) (attrs self)\<rparr>) =
        Inr (Obj ''PM'' []))
   \<and> \<not> isl (Web3_pm (case enable_unstable_package_management_api self of
                       Inl err \<Rightarrow> self | Inr self' \<Rightarrow> self'))"
proof (intro conjI impI)
  assume "map_of (attrs self) ''_pm'' = None"
  then show "Web3_pm self = Inl (AttributeError pm_disabled_message)"
    by (simp add: Web3_pm_def)
next
  assume "Web3_init e p mws (Some specs) ens = Inr w"
    and "''_pm'' \<notin> set (map (\<lambda>m. attach_name (module m) (name m)) specs)"
  then show "Web3_pm w = Inl (AttributeError pm_disabled_message)"
    by (rule Web3_pm_after_init)
next
  assume "Web3_init e p mws None ens = Inr w"
  then have "Web3_init e p mws (Some get_default_modules) ens = Inr w"
    by (simp add: Web3_init_def)
  then show "Web3_pm w = Inl (AttributeError pm_disabled_message)"
    using default_modules_no_pm by (rule Web3_pm_after_init)
next
  assume "map_of (attrs self) ''_pm'' = None"
  then show "enable_unstable_package_management_api self =
        Inr (self\<lparr>attrs := AList.update ''_pm'' (Obj ''PM'' []) (attrs self)\<rparr>)"
    by (rule enable_when_disabled)
next
  show "Web3_pm (self\<lparr>attrs := AList.update ''_pm'' (Obj ''PM'' []) (attrs self)\<rparr>) =
        Inr (Obj ''PM'' [])"
    by (simp add: Web3_pm_def AList.update_conv')
next
  show "\<not> isl (Web3_pm (case enable_unstable_package_management_api self of
                       Inl err \<Rightarrow> self | Inr self' \<Rightarrow> self'))"
  proof (cases "map_of (attrs self) ''_pm''")
    case None
    then show ?thesis
      by (simp add: enable_when_disabled Web3_pm_def AList.update_conv')
  next
    case (Some ob)
    then show ?thesis
      by (simp add: enable_when_enabled Web3_pm_def)
  qed
qed

theorem pm_gate_witness:
  "map_of (attrs default_facade) ''_pm'' = None
   \<and> Web3_init sample_env (PObject ''HTTPProvider'') None None PEmpty = Inr default_facade
   \<and> Web3_init sample_env (PObject ''HTTPProvider'') None (Some get_default_modules) PEmpty =
       Inr default_facade
   \<and> ''_pm'' \<notin> set (map (\<lambda>m. attach_name (module m) (name m)) get_default_modules)
   \<and> Web3_pm default_facade = Inl (AttributeError pm_disabled_message)
   \<and> enable_unstable_package_management_api default_facade =
       Inr (default_facade\<lparr>attrs := AList.update ''_pm'' (Obj ''PM'' []) (attrs default_facade)\<rparr>)
   \<and> Web3_pm (default_facade\<lparr>attrs := AList.update ''_pm'' (Obj ''PM'' []) (attrs default_facade)\<rparr>) =
       Inr (Obj ''PM'' [])
   \<and> Web3_pm (projr (enable_unstable_package_management_api default_facade)) = Inr (Obj ''PM'' [])"
proof -
  have none: "map_of (attrs default_facade) ''_pm'' = None"
    by code_simp
  have built: "Web3_init sample_env (PObject ''HTTPProvider'') None None PEmpty = Inr default_facade"
    by code_simp
  have listed: "Web3_init sample_env (PObject ''HTTPProvider'') None (Some get_default_modules) PEmpty =
      Inr default_facade"
    by code_simp
  have names: "''_pm'' \<notin> set (map (\<lambda>m. attach_name (module m) (name m)) get_default_modules)"
    by code_simp
  show ?thesis
    using pm_gate [of default_facade sample_env "PObject ''HTTPProvider''" None get_default_modules
        PEmpty default_facade] none built listed names
    by simp
qed

end
